theory Spec2Isabelle
  imports Main "HOL-Library.AList"
begin

section \<open>The menu extraction script \<^verbatim>\<open>scripts/parser.py\<close>\<close>

text \<open>
  The script is one straight line of statements: read two environment variables, download
  an image, ask a generative model for a weekly menu as JSON, validate the reply against
  the pydantic classes \<^verbatim>\<open>DailyMenu\<close> and \<^verbatim>\<open>WeeklyMenu\<close>, compute the output path, assert
  that nothing exists there, open the file, rewrite every item of the dumped model and
  write the list as JSON.

  Python strings are modelled as \<^typ>\<open>string\<close>, read as the UTF-8 bytes of the text (the
  file is opened with \<^verbatim>\<open>encoding="utf-8"\<close>, and concatenation of texts is concatenation of
  their encodings). Python integers are \<^typ>\<open>int\<close>. Every exception of the script is a
  value of \<open>error\<close>; a statement that can raise returns \<open>error + 'a\<close>.
\<close>

subsection \<open>JSON values, Python values and exceptions\<close>

text \<open>
  One datatype serves for the JSON text of the model's reply (after parsing) and for the
  Python objects of \<^verbatim>\<open>model_dump(mode="json")\<close>: \<open>JNull\<close> is \<^verbatim>\<open>null\<close>/\<^verbatim>\<open>None\<close>, a dict is an
  association list in insertion order. \<open>JFloat\<close> keeps a JSON number with a fraction or an
  exponent as its literal; no field of the schema is a float.
\<close>

datatype json =
    JNull
  | JBool bool
  | JInt int
  | JFloat string
  | JString string
  | JArray "json list"
  | JObject "(string \<times> json) list"

datatype error =
    KeyError json
  | TypeError
  | RequestException
  | UnidentifiedImageError
  | APIError
  | ValidationError
  | AssertionError
  | OSError
  | OutOfModel

subsection \<open>Decimal text of an integer: \<^verbatim>\<open>f"{year}"\<close>\<close>

definition digit_char :: "nat \<Rightarrow> char" where
  "digit_char d = ''0123456789'' ! d"

function str_nat :: "nat \<Rightarrow> string" where
  "str_nat n = (if n < 10 then [digit_char n] else str_nat (n div 10) @ [digit_char (n mod 10)])"
  by pat_completeness auto
termination
  by (relation "measure (\<lambda>n. n)") auto

declare str_nat.simps [simp del]

definition str_int :: "int \<Rightarrow> string" where
  "str_int i = (if i < 0 then CHR ''-'' # str_nat (nat (- i)) else str_nat (nat i))"

text \<open>
  What an f-string puts for a value: the text itself for a \<^verbatim>\<open>str\<close>, the decimal digits for
  an \<^verbatim>\<open>int\<close>, \<^verbatim>\<open>None\<close>, \<^verbatim>\<open>True\<close>, \<^verbatim>\<open>False\<close>. The \<^verbatim>\<open>repr\<close> of a list or a dict is not
  modelled (\<open>OutOfModel\<close>); \<^verbatim>\<open>model_dump\<close> never puts one under \<^verbatim>\<open>"date"\<close>.
\<close>

fun format_value :: "json \<Rightarrow> error + string" where
  "format_value (JString s) = Inr s"
| "format_value (JInt i) = Inr (str_int i)"
| "format_value JNull = Inr ''None''"
| "format_value (JBool b) = Inr (if b then ''True'' else ''False'')"
| "format_value (JFloat l) = Inl OutOfModel"
| "format_value (JArray xs) = Inl OutOfModel"
| "format_value (JObject kvs) = Inl OutOfModel"

subsection \<open>Dictionaries\<close>

text \<open>
  \<^verbatim>\<open>d[k]\<close> on a dict with string keys: the value, or \<^verbatim>\<open>KeyError\<close>. Assigning \<^verbatim>\<open>d[k] = v\<close>
  replaces the value in place or appends the new key at the end
  (\<^const>\<open>AList.update\<close>), which is the order \<^verbatim>\<open>json.dumps\<close> prints.
\<close>

definition getitem :: "(string \<times> json) list \<Rightarrow> string \<Rightarrow> error + json" where
  "getitem d k = (case map_of d k of None \<Rightarrow> Inl (KeyError (JString k)) | Some v \<Rightarrow> Inr v)"

definition setitem :: "(string \<times> json) list \<Rightarrow> string \<Rightarrow> json \<Rightarrow> (string \<times> json) list" where
  "setitem d k v = AList.update k v d"

text \<open>
  Subscripting one of the two constant tables with an arbitrary Python value: a string
  that is a key gives its index, any other hashable value is a \<^verbatim>\<open>KeyError\<close>, a list or a
  dict is unhashable (\<^verbatim>\<open>TypeError\<close>). There is no \<^verbatim>\<open>.get\<close> and no default.
\<close>

fun table_lookup :: "(string \<rightharpoonup> int) \<Rightarrow> json \<Rightarrow> error + int" where
  "table_lookup t (JString s) = (case t s of None \<Rightarrow> Inl (KeyError (JString s)) | Some i \<Rightarrow> Inr i)"
| "table_lookup t (JArray xs) = Inl TypeError"
| "table_lookup t (JObject kvs) = Inl TypeError"
| "table_lookup t v = Inl (KeyError v)"

definition weekday_to_index :: "string \<rightharpoonup> int" where
  "weekday_to_index = map_of
     [(''Mon'', 1), (''Tue'', 2), (''Wed'', 3), (''Thu'', 4), (''Fri'', 5), (''Sat'', 6), (''Sun'', 7)]"

definition time_to_index :: "string \<rightharpoonup> int" where
  "time_to_index = map_of [(''breakfast'', 1), (''lunch'', 2), (''dinner'', 3)]"

subsection \<open>The pydantic classes and \<^verbatim>\<open>model_validate_json\<close>\<close>

record DailyMenu =
  date :: string
  day :: string
  menus :: "string list"
  calorie :: int
  time :: string

record WeeklyMenu =
  items :: "DailyMenu list"
  restaurant_name :: string
  start_date :: string
  end_date :: string

text \<open>
  Validation of a parsed JSON value, field by field. Every field is declared without a
  default, so each is required; \<^verbatim>\<open>Field(description=...)\<close> constrains nothing. A \<^verbatim>\<open>str\<close>
  field takes a JSON string only, \<^verbatim>\<open>list[str]\<close> an array of strings, \<^verbatim>\<open>int\<close> a JSON
  integer. For \<^verbatim>\<open>int\<close> pydantic's lax mode also converts some booleans, floats and numeric
  strings; that conversion is the parameter \<open>lax\<close>. \<^verbatim>\<open>null\<close>, arrays and objects are never
  an \<^verbatim>\<open>int\<close>. Unknown keys are ignored; of a repeated key the last occurrence counts.
\<close>

definition obj_get :: "(string \<times> json) list \<Rightarrow> string \<Rightarrow> json option" where
  "obj_get kvs k = map_of (rev kvs) k"

fun validate_str :: "json \<Rightarrow> string option" where
  "validate_str (JString s) = Some s"
| "validate_str v = None"

fun validate_int :: "(json \<Rightarrow> int option) \<Rightarrow> json \<Rightarrow> int option" where
  "validate_int lax (JInt i) = Some i"
| "validate_int lax JNull = None"
| "validate_int lax (JArray xs) = None"
| "validate_int lax (JObject kvs) = None"
| "validate_int lax v = lax v"

fun validate_str_list :: "json \<Rightarrow> string list option" where
  "validate_str_list (JArray xs) = those (map validate_str xs)"
| "validate_str_list v = None"

definition required :: "(string \<times> json) list \<Rightarrow> string \<Rightarrow> (json \<Rightarrow> 'a option) \<Rightarrow> 'a option" where
  "required kvs k validate = (case obj_get kvs k of None \<Rightarrow> None | Some v \<Rightarrow> validate v)"

fun validate_DailyMenu :: "(json \<Rightarrow> int option) \<Rightarrow> json \<Rightarrow> DailyMenu option" where
  "validate_DailyMenu lax (JObject kvs) =
     Option.bind (required kvs ''date'' validate_str) (\<lambda>d.
     Option.bind (required kvs ''day'' validate_str) (\<lambda>w.
     Option.bind (required kvs ''menus'' validate_str_list) (\<lambda>ms.
     Option.bind (required kvs ''calorie'' (validate_int lax)) (\<lambda>c.
     Option.bind (required kvs ''time'' validate_str) (\<lambda>t.
       Some \<lparr>date = d, day = w, menus = ms, calorie = c, time = t\<rparr>)))))"
| "validate_DailyMenu lax v = None"

fun validate_items :: "(json \<Rightarrow> int option) \<Rightarrow> json \<Rightarrow> DailyMenu list option" where
  "validate_items lax (JArray xs) = those (map (validate_DailyMenu lax) xs)"
| "validate_items lax v = None"

fun validate_WeeklyMenu :: "(json \<Rightarrow> int option) \<Rightarrow> json \<Rightarrow> WeeklyMenu option" where
  "validate_WeeklyMenu lax (JObject kvs) =
     Option.bind (required kvs ''items'' (validate_items lax)) (\<lambda>its.
     Option.bind (required kvs ''restaurant_name'' validate_str) (\<lambda>rn.
     Option.bind (required kvs ''start_date'' validate_str) (\<lambda>sd.
     Option.bind (required kvs ''end_date'' validate_str) (\<lambda>ed.
       Some \<lparr>items = its, restaurant_name = rn, start_date = sd, end_date = ed\<rparr>))))"
| "validate_WeeklyMenu lax v = None"

text \<open>
  \<^verbatim>\<open>WeeklyMenu.model_validate_json(response.text)\<close>: text that is not JSON and JSON that
  does not fit the schema both raise \<^verbatim>\<open>ValidationError\<close>. The JSON parser is a parameter.
\<close>

definition model_validate_json ::
  "(string \<Rightarrow> json option) \<Rightarrow> (json \<Rightarrow> int option) \<Rightarrow> string \<Rightarrow> error + WeeklyMenu" where
  "model_validate_json parse lax text =
     (case parse text of
        None \<Rightarrow> Inl ValidationError
      | Some j \<Rightarrow> (case validate_WeeklyMenu lax j of
                     None \<Rightarrow> Inl ValidationError
                   | Some parsed_result \<Rightarrow> Inr parsed_result))"

text \<open>\<^verbatim>\<open>parsed_result.model_dump(mode="json")\<close>: plain dicts and lists, fields in declaration order.\<close>

definition dump_DailyMenu :: "DailyMenu \<Rightarrow> json" where
  "dump_DailyMenu m = JObject
     [(''date'', JString (date m)), (''day'', JString (day m)),
      (''menus'', JArray (map JString (menus m))), (''calorie'', JInt (calorie m)),
      (''time'', JString (time m))]"

definition model_dump :: "WeeklyMenu \<Rightarrow> (string \<times> json) list" where
  "model_dump p =
     [(''items'', JArray (map dump_DailyMenu (items p))),
      (''restaurant_name'', JString (restaurant_name p)),
      (''start_date'', JString (start_date p)),
      (''end_date'', JString (end_date p))]"

subsection \<open>The normalization loop\<close>

text \<open>
  The body of \<^verbatim>\<open>for daily_menu in json_data["items"]\<close>, statement by statement, on the
  dict \<open>d\<close>: the \<^verbatim>\<open>None\<close> test on \<^verbatim>\<open>calorie\<close>, the year prefix on \<^verbatim>\<open>date\<close>, the injected
  \<^verbatim>\<open>restaurant_name\<close>, then the two table lookups. The first statement that raises ends
  the loop and the script.
\<close>

definition normalize_calorie :: "(string \<times> json) list \<Rightarrow> error + (string \<times> json) list" where
  "normalize_calorie d =
     (case getitem d ''calorie'' of
        Inl e \<Rightarrow> Inl e
      | Inr c \<Rightarrow> Inr (if c = JNull then setitem d ''calorie'' (JInt 0) else d))"

definition normalize_date :: "int \<Rightarrow> (string \<times> json) list \<Rightarrow> error + (string \<times> json) list" where
  "normalize_date year d =
     (case getitem d ''date'' of
        Inl e \<Rightarrow> Inl e
      | Inr v \<Rightarrow> (case format_value v of
                    Inl e \<Rightarrow> Inl e
                  | Inr s \<Rightarrow> Inr (setitem d ''date'' (JString (str_int year @ ''-'' @ s)))))"

definition normalize_index ::
  "string \<Rightarrow> (string \<rightharpoonup> int) \<Rightarrow> (string \<times> json) list \<Rightarrow> error + (string \<times> json) list" where
  "normalize_index k table d =
     (case getitem d k of
        Inl e \<Rightarrow> Inl e
      | Inr v \<Rightarrow> (case table_lookup table v of
                    Inl e \<Rightarrow> Inl e
                  | Inr i \<Rightarrow> Inr (setitem d k (JInt i))))"

definition normalize_daily_menu ::
  "int \<Rightarrow> string \<Rightarrow> (string \<times> json) list \<Rightarrow> error + (string \<times> json) list" where
  "normalize_daily_menu year rn d =
     (case normalize_calorie d of Inl e \<Rightarrow> Inl e | Inr d1 \<Rightarrow>
     (case normalize_date year d1 of Inl e \<Rightarrow> Inl e | Inr d2 \<Rightarrow>
     (case normalize_index ''day'' weekday_to_index (setitem d2 ''restaurant_name'' (JString rn)) of
        Inl e \<Rightarrow> Inl e | Inr d4 \<Rightarrow>
      normalize_index ''time'' time_to_index d4)))"

text \<open>Subscripting a loop element that is not a dict is a \<^verbatim>\<open>TypeError\<close>.\<close>

fun normalize_item :: "int \<Rightarrow> string \<Rightarrow> json \<Rightarrow> error + json" where
  "normalize_item year rn (JObject d) =
     (case normalize_daily_menu year rn d of Inl e \<Rightarrow> Inl e | Inr d' \<Rightarrow> Inr (JObject d'))"
| "normalize_item year rn v = Inl TypeError"

text \<open>The loop, with \<^verbatim>\<open>output_for_save\<close> as the accumulator.\<close>

fun normalize_loop :: "int \<Rightarrow> string \<Rightarrow> json list \<Rightarrow> json list \<Rightarrow> error + json list" where
  "normalize_loop year rn [] output_for_save = Inr output_for_save"
| "normalize_loop year rn (daily_menu # rest) output_for_save =
     (case normalize_item year rn daily_menu of
        Inl e \<Rightarrow> Inl e
      | Inr m \<Rightarrow> normalize_loop year rn rest (output_for_save @ [m]))"

text \<open>
  Lines 75 to 85: dump the model, take \<^verbatim>\<open>json_data["items"]\<close>, run the loop from the empty
  list. Iterating over something that is not a list is a \<^verbatim>\<open>TypeError\<close>.
\<close>

definition normalize :: "int \<Rightarrow> WeeklyMenu \<Rightarrow> error + json list" where
  "normalize year parsed_result =
     (case getitem (model_dump parsed_result) ''items'' of
        Inl e \<Rightarrow> Inl e
      | Inr (JArray ds) \<Rightarrow> normalize_loop year (restaurant_name parsed_result) ds []
      | Inr _ \<Rightarrow> Inl TypeError)"

subsection \<open>\<^verbatim>\<open>json.dumps(..., ensure_ascii=False, indent=2)\<close>\<close>

definition hex_char :: "nat \<Rightarrow> char" where
  "hex_char d = ''0123456789abcdef'' ! d"

text \<open>
  With \<^verbatim>\<open>ensure_ascii=False\<close> only the quote, the backslash and the control characters
  below 0x20 are escaped; every other byte is written as it is.
\<close>

definition escape_char :: "char \<Rightarrow> string" where
  "escape_char c =
     (if c = CHR 0x22 then [CHR 0x5C, CHR 0x22]
      else if c = CHR 0x5C then [CHR 0x5C, CHR 0x5C]
      else if c = CHR 0x0A then [CHR 0x5C, CHR ''n'']
      else if c = CHR 0x0D then [CHR 0x5C, CHR ''r'']
      else if c = CHR 0x09 then [CHR 0x5C, CHR ''t'']
      else if c = CHR 0x08 then [CHR 0x5C, CHR ''b'']
      else if c = CHR 0x0C then [CHR 0x5C, CHR ''f'']
      else if (of_char c :: nat) < 32
        then [CHR 0x5C, CHR ''u'', CHR ''0'', CHR ''0''] @
             [hex_char ((of_char c :: nat) div 16), hex_char ((of_char c :: nat) mod 16)]
      else [c])"

definition encode_string :: "string \<Rightarrow> string" where
  "encode_string s = CHR 0x22 # concat (map escape_char s) @ [CHR 0x22]"

definition newline_indent :: "nat \<Rightarrow> string" where
  "newline_indent level = CHR 0x0A # replicate (2 * level) CHR '' ''"

fun join :: "string \<Rightarrow> string list \<Rightarrow> string" where
  "join sep [] = []"
| "join sep [x] = x"
| "join sep (x # y # ys) = x @ sep @ join sep (y # ys)"

fun dumps_at :: "nat \<Rightarrow> json \<Rightarrow> string" where
  "dumps_at level JNull = ''null''"
| "dumps_at level (JBool b) = (if b then ''true'' else ''false'')"
| "dumps_at level (JInt i) = str_int i"
| "dumps_at level (JFloat l) = l"
| "dumps_at level (JString s) = encode_string s"
| "dumps_at level (JArray xs) =
     (if xs = [] then ''[]''
      else ''['' @ newline_indent (Suc level) @
           join (CHR '','' # newline_indent (Suc level)) (map (dumps_at (Suc level)) xs) @
           newline_indent level @ '']'')"
| "dumps_at level (JObject kvs) =
     (if kvs = [] then ''{}''
      else ''{'' @ newline_indent (Suc level) @
           join (CHR '','' # newline_indent (Suc level))
             (map (\<lambda>(k, v). encode_string k @ '': '' @ dumps_at (Suc level) v) kvs) @
           newline_indent level @ ''}'')"

definition json_dumps :: "json \<Rightarrow> string" where
  "json_dumps v = dumps_at 0 v"

subsection \<open>Paths\<close>

text \<open>
  A \<^verbatim>\<open>pathlib\<close> path on a POSIX system is a root (\<^verbatim>\<open>""\<close>, \<^verbatim>\<open>"/"\<close> or \<^verbatim>\<open>"//"\<close>) and the list of
  its components; empty components and \<^verbatim>\<open>"."\<close> are dropped when the text is parsed.
  \<^verbatim>\<open>Path(a) / Path(b)\<close> joins the two texts as \<^verbatim>\<open>posixpath.join\<close> does and parses the
  result: a second operand that starts with a slash replaces the first.
\<close>

datatype path = PosixPath string "string list"

fun split_sep :: "string \<Rightarrow> string list" where
  "split_sep [] = [[]]"
| "split_sep (c # cs) =
     (if c = CHR ''/'' then [] # split_sep cs
      else (case split_sep cs of [] \<Rightarrow> [[c]] | x # xs \<Rightarrow> (c # x) # xs))"

definition splitroot :: "string \<Rightarrow> string \<times> string" where
  "splitroot p =
     (if take 1 p \<noteq> ''/'' then ([], p)
      else if take 1 (drop 1 p) \<noteq> ''/'' \<or> take 1 (drop 2 p) = ''/'' then (''/'', drop 1 p)
      else (''//'', drop 2 p))"

definition parse_path :: "string \<Rightarrow> path" where
  "parse_path p =
     (case splitroot p of
        (root, rel) \<Rightarrow> PosixPath root (filter (\<lambda>x. x \<noteq> [] \<and> x \<noteq> ''.'') (split_sep rel)))"

definition posix_join :: "string \<Rightarrow> string \<Rightarrow> string" where
  "posix_join a b =
     (if take 1 b = ''/'' then b
      else if a = [] \<or> last a = CHR ''/'' then a @ b
      else a @ ''/'' @ b)"

text \<open>Lines 64 to 66.\<close>

definition save_file_name :: "int \<Rightarrow> WeeklyMenu \<Rightarrow> string" where
  "save_file_name year parsed_result =
     restaurant_name parsed_result @ ''_'' @ str_int year @ ''-'' @
     start_date parsed_result @ ''.json''"

definition base_path :: string where
  "base_path = ''menus''"

definition final_path :: "int \<Rightarrow> WeeklyMenu \<Rightarrow> path" where
  "final_path year parsed_result =
     parse_path (posix_join base_path (save_file_name year parsed_result))"

subsection \<open>The world outside the script\<close>

text \<open>
  What the script reads from outside, and the file system it writes to. A call that
  raises is \<open>None\<close>. \<^verbatim>\<open>requests.get\<close> returns a response for every HTTP status; it raises
  only when no response arrives. \<open>files\<close> maps every existing path to the bytes of its
  file; \<open>openable\<close> says whether \<^verbatim>\<open>open(path, "w")\<close> succeeds on a path where nothing exists
  yet (the directory is there and writable). A successful \<^verbatim>\<open>open(..., "w")\<close> creates the
  file empty; the write itself is taken to succeed, and so is the construction of the
  client on line 37 once the key is there. The \<^verbatim>\<open>print\<close> calls are left out.
\<close>

record http_response =
  status_code :: nat
  content :: string

record 'img world =
  environ :: "string \<rightharpoonup> string"
  requests_get :: "string \<Rightarrow> http_response option"
  image_open :: "string \<Rightarrow> 'img option"
  generate_content :: "string \<Rightarrow> 'img \<Rightarrow> string option"
  json_parse :: "string \<Rightarrow> json option"
  lax_int :: "json \<Rightarrow> int option"
  year_now :: int
  files :: "path \<rightharpoonup> string"
  openable :: "path \<Rightarrow> bool"

definition environ_get :: "'img world \<Rightarrow> string \<Rightarrow> error + string" where
  "environ_get w k = (case environ w k of None \<Rightarrow> Inl (KeyError (JString k)) | Some v \<Rightarrow> Inr v)"

text \<open>Lines 40 to 43: the image download.\<close>

definition fetch_image :: "'img world \<Rightarrow> error + 'img" where
  "fetch_image w =
     (case environ_get w ''IMAGE_URL'' of
        Inl e \<Rightarrow> Inl e
      | Inr image_url \<Rightarrow>
          (case requests_get w image_url of
             None \<Rightarrow> Inl RequestException
           | Some response \<Rightarrow>
               (case image_open w (content response) of
                  None \<Rightarrow> Inl UnidentifiedImageError
                | Some image_data \<Rightarrow> Inr image_data)))"

text \<open>Lines 37 to 56: everything up to the validated \<^verbatim>\<open>parsed_result\<close>.\<close>

definition extract_menu :: "'img world \<Rightarrow> error + WeeklyMenu" where
  "extract_menu w =
     (case environ_get w ''GEMINI_API_KEY'' of
        Inl e \<Rightarrow> Inl e
      | Inr api_key \<Rightarrow>
          (case fetch_image w of
             Inl e \<Rightarrow> Inl e
           | Inr image_data \<Rightarrow>
               (case generate_content w api_key image_data of
                  None \<Rightarrow> Inl APIError
                | Some text \<Rightarrow> model_validate_json (json_parse w) (lax_int w) text)))"

text \<open>
  Lines 58 to 86: the path, the assertion, \<^verbatim>\<open>open\<close>, the loop inside the \<^verbatim>\<open>with\<close> block and
  the write. The result is the exception that ended the script, if any, and the file
  system afterwards. The \<^verbatim>\<open>assert\<close> is modelled as the interpreter runs it by default
  (not under \<^verbatim>\<open>-O\<close>, which drops assertions).
\<close>

definition persist ::
  "int \<Rightarrow> (path \<Rightarrow> bool) \<Rightarrow> (path \<rightharpoonup> string) \<Rightarrow> WeeklyMenu \<Rightarrow> error option \<times> (path \<rightharpoonup> string)" where
  "persist year can_open fs parsed_result =
     (if fs (final_path year parsed_result) \<noteq> None then (Some AssertionError, fs)
      else if \<not> can_open (final_path year parsed_result) then (Some OSError, fs)
      else (case normalize year parsed_result of
              Inl e \<Rightarrow> (Some e, fs(final_path year parsed_result \<mapsto> []))
            | Inr output_for_save \<Rightarrow>
                (None, fs(final_path year parsed_result \<mapsto> json_dumps (JArray output_for_save)))))"

definition run :: "'img world \<Rightarrow> error option \<times> (path \<rightharpoonup> string)" where
  "run w =
     (case extract_menu w of
        Inl e \<Rightarrow> (Some e, files w)
      | Inr parsed_result \<Rightarrow> persist (year_now w) (openable w) (files w) parsed_result)"

subsection \<open>Reading the result\<close>

text \<open>The value under a key of a persisted entry.\<close>

fun entry_get :: "json \<Rightarrow> string \<Rightarrow> json option" where
  "entry_get (JObject d) k = map_of d k"
| "entry_get v k = None"

text \<open>
  The path as the specification words it: the text
  \<^verbatim>\<open>menus/{restaurantName}_{currentYear}-{startDate}.json\<close>, read as a path.
\<close>

definition spec_target_path :: "int \<Rightarrow> WeeklyMenu \<Rightarrow> path" where
  "spec_target_path year parsed_result =
     parse_path (''menus/'' @ restaurant_name parsed_result @ ''_'' @ str_int year @ ''-'' @
                 start_date parsed_result @ ''.json'')"

subsection \<open>Concrete inputs\<close>

text \<open>
  Three of the restaurant names of the schema's description, as UTF-8: the student
  cafeteria, the Korean section of the dormitory restaurant and its Halal section.
\<close>

definition student_cafeteria :: string where
  "student_cafeteria =
     [CHR 0xED, CHR 0x95, CHR 0x99, CHR 0xEC, CHR 0x83, CHR 0x9D, CHR 0x5F,
      CHR 0xEC, CHR 0x8B, CHR 0x9D, CHR 0xEB, CHR 0x8B, CHR 0xB9]"

definition dormitory_korean :: string where
  "dormitory_korean =
     [CHR 0xEA, CHR 0xB8, CHR 0xB0, CHR 0xEC, CHR 0x88, CHR 0x99, CHR 0xEC, CHR 0x82, CHR 0xAC,
      CHR 0x5F, CHR 0xEC, CHR 0x8B, CHR 0x9D, CHR 0xEB, CHR 0x8B, CHR 0xB9, CHR 0x5F,
      CHR 0xED, CHR 0x95, CHR 0x9C, CHR 0xEC, CHR 0x8B, CHR 0x9D]"

definition dormitory_halal :: string where
  "dormitory_halal =
     [CHR 0xEA, CHR 0xB8, CHR 0xB0, CHR 0xEC, CHR 0x88, CHR 0x99, CHR 0xEC, CHR 0x82, CHR 0xAC,
      CHR 0x5F, CHR 0xEC, CHR 0x8B, CHR 0x9D, CHR 0xEB, CHR 0x8B, CHR 0xB9, CHR 0x5F,
      CHR 0xED, CHR 0x95, CHR 0xA0, CHR 0xEB, CHR 0x9E, CHR 0x84]"

text \<open>A validated week of two entries, with the restaurant name and the end date left open.\<close>

definition example_menu :: "string \<Rightarrow> string \<Rightarrow> WeeklyMenu" where
  "example_menu rn ed =
     \<lparr>items =
        [\<lparr>date = ''03-04'', day = ''Mon'', menus = [''Rice'', ''Soup''], calorie = 650,
          time = ''lunch''\<rparr>,
         \<lparr>date = ''03-05'', day = ''Tue'', menus = [''Bread''], calorie = 0,
          time = ''breakfast''\<rparr>],
      restaurant_name = rn, start_date = ''03-04'', end_date = ed\<rparr>"

text \<open>
  A reply of the model with one entry: the weekday symbol, the calorie value and the
  restaurant name are left open.
\<close>

definition example_reply :: "string \<Rightarrow> json \<Rightarrow> string \<Rightarrow> json" where
  "example_reply d c rn = JObject
     [(''items'', JArray
         [JObject [(''date'', JString ''03-04''), (''day'', JString d),
                   (''menus'', JArray [JString ''Rice'', JString ''Soup'']), (''calorie'', c),
                   (''time'', JString ''lunch'')]]),
      (''restaurant_name'', JString rn), (''start_date'', JString ''03-04''),
      (''end_date'', JString ''03-08'')]"

text \<open>
  A world in which both environment variables are set, the server answers every URL with
  the given status and a body that decodes as an image, the model answers with the given
  reply, the year is 2025 and every path can be opened for writing.
\<close>

definition example_world :: "nat \<Rightarrow> json \<Rightarrow> (path \<rightharpoonup> string) \<Rightarrow> unit world" where
  "example_world status reply fs =
     \<lparr>environ = map_of [(''GEMINI_API_KEY'', ''key''), (''IMAGE_URL'', ''http://host/menu.png'')],
      requests_get = (\<lambda>url. Some \<lparr>status_code = status, content = ''PNG''\<rparr>),
      image_open = (\<lambda>bytes. if bytes = ''PNG'' then Some () else None),
      generate_content = (\<lambda>key img. Some ''reply''),
      json_parse = (\<lambda>t. if t = ''reply'' then Some reply else None),
      lax_int = (\<lambda>v. None),
      year_now = 2025,
      files = fs,
      openable = (\<lambda>p. True)\<rparr>"

section \<open>Properties\<close>

subsection \<open>The normalizer on the items that \<^verbatim>\<open>model_dump\<close> produces\<close>

lemma normalize_item_dump:
  "normalize_item year rn (dump_DailyMenu m) =
     (case weekday_to_index (day m) of
        None \<Rightarrow> Inl (KeyError (JString (day m)))
      | Some i \<Rightarrow>
          (case time_to_index (time m) of
             None \<Rightarrow> Inl (KeyError (JString (time m)))
           | Some j \<Rightarrow> Inr (JObject
               [(''date'', JString (str_int year @ ''-'' @ date m)), (''day'', JInt i),
                (''menus'', JArray (map JString (menus m))), (''calorie'', JInt (calorie m)),
                (''time'', JInt j), (''restaurant_name'', JString rn)])))"
  by (simp add: dump_DailyMenu_def normalize_daily_menu_def normalize_calorie_def
      normalize_date_def normalize_index_def getitem_def setitem_def split: option.splits)

lemma normalize_loop_Inr:
  "normalize_loop year rn ds acc = Inr out \<Longrightarrow>
     \<exists>ms. out = acc @ ms \<and> list_all2 (\<lambda>d m. normalize_item year rn d = Inr m) ds ms"
proof (induction ds arbitrary: acc)
  case Nil
  then show ?case by simp
next
  case (Cons d ds)
  then obtain m where m: "normalize_item year rn d = Inr m"
    and rest: "normalize_loop year rn ds (acc @ [m]) = Inr out"
    by (auto split: sum.splits)
  from Cons.IH [OF rest] obtain ms where "out = (acc @ [m]) @ ms"
    and "list_all2 (\<lambda>d m. normalize_item year rn d = Inr m) ds ms" by blast
  with m have "out = acc @ (m # ms) \<and>
      list_all2 (\<lambda>d m. normalize_item year rn d = Inr m) (d # ds) (m # ms)"
    by simp
  then show ?case by blast
qed

lemma normalize_loop_all:
  "list_all2 (\<lambda>d m. normalize_item year rn d = Inr m) ds ms \<Longrightarrow>
     normalize_loop year rn ds acc = Inr (acc @ ms)"
  by (induction ds ms arbitrary: acc rule: list_all2_induct) auto

lemma normalize_loop_Inl:
  "normalize_loop year rn ds acc = Inl e \<Longrightarrow> \<exists>d \<in> set ds. normalize_item year rn d = Inl e"
  by (induction ds arbitrary: acc) (auto split: sum.splits)

lemma normalize_eq:
  "normalize year p = normalize_loop year (restaurant_name p) (map dump_DailyMenu (items p)) []"
  by (simp add: normalize_def model_dump_def getitem_def)

lemma normalize_Inr_items:
  assumes "normalize year p = Inr out"
  shows "list_all2 (\<lambda>m e. normalize_item year (restaurant_name p) (dump_DailyMenu m) = Inr e) (items p) out"
proof -
  from assms normalize_loop_Inr [of year "restaurant_name p" "map dump_DailyMenu (items p)" "[]" out]
  show ?thesis by (simp add: normalize_eq list_all2_map1)
qed

lemma normalize_item_dump_Inr:
  assumes "normalize_item year rn (dump_DailyMenu m) = Inr e"
  shows "\<exists>i j. weekday_to_index (day m) = Some i \<and> time_to_index (time m) = Some j \<and>
           e = JObject
             [(''date'', JString (str_int year @ ''-'' @ date m)), (''day'', JInt i),
              (''menus'', JArray (map JString (menus m))), (''calorie'', JInt (calorie m)),
              (''time'', JInt j), (''restaurant_name'', JString rn)]"
  using assms by (auto simp: normalize_item_dump split: option.splits)

subsection \<open>Length and order of the output\<close>

text \<open>
  C6. For every validated week whose weekday and meal-time symbols are all in the two
  tables, the normalizer returns a list of the same length as \<open>items\<close>, and its entry at
  position \<open>i\<close> is the normalized item at position \<open>i\<close>: the menus appear in the order of
  the input, nothing is sorted.
\<close>

theorem normalize_keeps_length_and_order:
  assumes "\<forall>m \<in> set (items p). weekday_to_index (day m) \<noteq> None \<and> time_to_index (time m) \<noteq> None"
  shows "\<exists>out. normalize year p = Inr out \<and> length out = length (items p) \<and>
           (\<forall>i < length (items p).
              normalize_item year (restaurant_name p) (dump_DailyMenu (items p ! i)) = Inr (out ! i)) \<and>
           map (\<lambda>m. entry_get m ''menus'') out =
             map (\<lambda>m. Some (JArray (map JString (menus m)))) (items p)"
proof -
  let ?rn = "restaurant_name p"
  let ?f = "\<lambda>m. JObject
      [(''date'', JString (str_int year @ ''-'' @ date m)),
       (''day'', JInt (the (weekday_to_index (day m)))),
       (''menus'', JArray (map JString (menus m))), (''calorie'', JInt (calorie m)),
       (''time'', JInt (the (time_to_index (time m)))), (''restaurant_name'', JString ?rn)]"
  have each: "normalize_item year ?rn (dump_DailyMenu m) = Inr (?f m)" if "m \<in> set (items p)" for m
    using assms that by (auto simp: normalize_item_dump)
  have "list_all2 (\<lambda>d m. normalize_item year ?rn d = Inr m)
          (map dump_DailyMenu (items p)) (map ?f (items p))"
    using each by (simp add: list_all2_conv_all_nth)
  then have run: "normalize year p = Inr (map ?f (items p))"
    using normalize_loop_all [of year ?rn _ _ "[]"] by (simp add: normalize_eq)
  have "\<forall>i < length (items p).
          normalize_item year ?rn (dump_DailyMenu (items p ! i)) = Inr (map ?f (items p) ! i)"
    using each by simp
  moreover have "map (\<lambda>m. entry_get m ''menus'') (map ?f (items p)) =
      map (\<lambda>m. Some (JArray (map JString (menus m)))) (items p)"
    by simp
  ultimately show ?thesis using run by simp
qed

theorem normalize_keeps_length_and_order_witness:
  "\<exists>out. normalize 2025 (example_menu student_cafeteria ''03-08'') = Inr out \<and> length out = 2 \<and>
     map (\<lambda>m. entry_get m ''menus'') out =
       [Some (JArray [JString ''Rice'', JString ''Soup'']), Some (JArray [JString ''Bread''])]"
proof -
  have valid: "\<forall>m \<in> set (items (example_menu student_cafeteria ''03-08'')).
      weekday_to_index (day m) \<noteq> None \<and> time_to_index (time m) \<noteq> None"
    by (simp add: example_menu_def weekday_to_index_def time_to_index_def)
  from normalize_keeps_length_and_order [OF valid, of 2025]
  show ?thesis by (auto simp: example_menu_def)
qed

subsection \<open>The restaurant name of every entry\<close>

lemma halal_not_korean: "dormitory_halal \<noteq> dormitory_korean"
  by (simp add: dormitory_halal_def dormitory_korean_def)

text \<open>
  C7. Whenever the script succeeds, the file at the target path is the JSON text of the
  normalized list, and every entry of that list carries, under \<^verbatim>\<open>restaurant_name\<close>, the
  weekly-level restaurant name of the validated reply. In particular, when the weekly name
  is the Halal section of the dormitory restaurant, every entry carries that name and not
  the name of the Korean section.
\<close>

theorem persisted_restaurant_name:
  assumes "persist year can_open fs p = (None, fs')"
  shows "\<exists>out. normalize year p = Inr out \<and>
           fs' (final_path year p) = Some (json_dumps (JArray out)) \<and>
           (\<forall>e \<in> set out. entry_get e ''restaurant_name'' = Some (JString (restaurant_name p))) \<and>
           (restaurant_name p = dormitory_halal \<longrightarrow>
              (\<forall>e \<in> set out. entry_get e ''restaurant_name'' = Some (JString dormitory_halal) \<and>
                               entry_get e ''restaurant_name'' \<noteq> Some (JString dormitory_korean)))"
proof -
  from assms obtain out where out: "normalize year p = Inr out"
    and fs': "fs' = fs(final_path year p \<mapsto> json_dumps (JArray out))"
    by (auto simp: persist_def split: if_splits sum.splits)
  have name: "entry_get e ''restaurant_name'' = Some (JString (restaurant_name p))"
    if "e \<in> set out" for e
  proof -
    from that normalize_Inr_items [OF out] obtain m
      where "normalize_item year (restaurant_name p) (dump_DailyMenu m) = Inr e"
      by (auto simp: list_all2_conv_all_nth in_set_conv_nth)
    from normalize_item_dump_Inr [OF this] show ?thesis by auto
  qed
  show ?thesis
    using out fs' name halal_not_korean by auto
qed

theorem persisted_restaurant_name_witness:
  "\<exists>out. normalize 2025 (example_menu dormitory_halal ''03-08'') = Inr out \<and> length out = 2 \<and>
         snd (persist 2025 (\<lambda>p. True) Map.empty (example_menu dormitory_halal ''03-08''))
           (final_path 2025 (example_menu dormitory_halal ''03-08'')) = Some (json_dumps (JArray out)) \<and>
         list_all (\<lambda>e. entry_get e ''restaurant_name'' = Some (JString dormitory_halal) \<and>
                        entry_get e ''restaurant_name'' \<noteq> Some (JString dormitory_korean)) out"
proof -
  let ?p = "example_menu dormitory_halal ''03-08''"
  let ?out = "[JObject [(''date'', JString ''2025-03-04''), (''day'', JInt 1),
        (''menus'', JArray [JString ''Rice'', JString ''Soup'']), (''calorie'', JInt 650),
        (''time'', JInt 2), (''restaurant_name'', JString dormitory_halal)],
      JObject [(''date'', JString ''2025-03-05''), (''day'', JInt 2),
        (''menus'', JArray [JString ''Bread'']), (''calorie'', JInt 0),
        (''time'', JInt 1), (''restaurant_name'', JString dormitory_halal)]]"
  have n: "normalize 2025 ?p = Inr ?out"
    by (simp add: normalize_eq example_menu_def normalize_item_dump weekday_to_index_def
        time_to_index_def str_int_def str_nat.simps digit_char_def)
  have run: "persist 2025 (\<lambda>p. True) Map.empty ?p =
      (None, Map.empty(final_path 2025 ?p \<mapsto> json_dumps (JArray ?out)))"
    by (simp add: persist_def n)
  have name: "restaurant_name ?p = dormitory_halal"
    by (simp add: example_menu_def)
  from persisted_restaurant_name [OF run] obtain out
    where out: "normalize 2025 ?p = Inr out"
      and all: "\<forall>e \<in> set out. entry_get e ''restaurant_name'' = Some (JString dormitory_halal) \<and>
             entry_get e ''restaurant_name'' \<noteq> Some (JString dormitory_korean)"
    using name by auto
  from out n have eq: "out = ?out" by simp
  have "length out = 2" unfolding eq by simp
  moreover have "snd (persist 2025 (\<lambda>p. True) Map.empty ?p) (final_path 2025 ?p) =
      Some (json_dumps (JArray out))"
    unfolding eq run by simp
  ultimately show ?thesis using out all by (auto simp: list_all_iff)
qed

subsection \<open>The date\<close>

text \<open>
  C5. For every entry whose \<^verbatim>\<open>date\<close> is a string \<open>s\<close>, the normalized date is the decimal
  text of the year, a hyphen and \<open>s\<close>, by concatenation: nothing in \<open>s\<close> is read as a
  calendar date. With the date \<^verbatim>\<open>11-20\<close> and the year 2024 it is \<^verbatim>\<open>2024-11-20\<close>.
\<close>

theorem date_gets_year_prefix:
  assumes "map_of d ''date'' = Some (JString s)"
    and "normalize_daily_menu year rn d = Inr d'"
  shows "map_of d' ''date'' = Some (JString (str_int year @ ''-'' @ s)) \<and>
         (year = 2024 \<and> s = ''11-20'' \<longrightarrow> map_of d' ''date'' = Some (JString ''2024-11-20''))"
proof -
  have y: "str_int 2024 = ''2024''"
    by (simp add: str_int_def str_nat.simps digit_char_def)
  have "map_of d' ''date'' = Some (JString (str_int year @ ''-'' @ s))"
    using assms
    by (auto simp: normalize_daily_menu_def normalize_calorie_def normalize_date_def
        normalize_index_def getitem_def setitem_def update_conv'
        split: sum.splits option.splits if_splits)
  then show ?thesis using y by auto
qed

theorem date_gets_year_prefix_witness:
  "normalize_daily_menu 2024 dormitory_halal
     [(''date'', JString ''11-20''), (''day'', JString ''Wed''), (''menus'', JArray []),
      (''calorie'', JInt 700), (''time'', JString ''dinner'')] =
   Inr [(''date'', JString ''2024-11-20''), (''day'', JInt 3), (''menus'', JArray []),
        (''calorie'', JInt 700), (''time'', JInt 3), (''restaurant_name'', JString dormitory_halal)] \<and>
   map_of [(''date'', JString ''2024-11-20''), (''day'', JInt 3), (''menus'', JArray []),
        (''calorie'', JInt 700), (''time'', JInt 3), (''restaurant_name'', JString dormitory_halal)]
     ''date'' = Some (JString ''2024-11-20'')"
proof -
  let ?d = "[(''date'', JString ''11-20''), (''day'', JString ''Wed''), (''menus'', JArray []),
      (''calorie'', JInt 700), (''time'', JString ''dinner'')]"
  have run: "normalize_daily_menu 2024 dormitory_halal ?d =
     Inr [(''date'', JString ''2024-11-20''), (''day'', JInt 3), (''menus'', JArray []),
        (''calorie'', JInt 700), (''time'', JInt 3), (''restaurant_name'', JString dormitory_halal)]"
    by (simp add: normalize_daily_menu_def normalize_calorie_def normalize_date_def
        normalize_index_def getitem_def setitem_def weekday_to_index_def time_to_index_def
        str_int_def str_nat.simps digit_char_def)
  have d: "map_of ?d ''date'' = Some (JString ''11-20'')" by simp
  from date_gets_year_prefix [OF d run] run show ?thesis by simp
qed

subsection \<open>The two tables\<close>










subsection \<open>The end date\<close>

text \<open>
  C10. \<^verbatim>\<open>end_date\<close> is read on line 62 and never used: two validated weeks that differ
  only in \<^verbatim>\<open>end_date\<close> have the same target path, the same normalized list, and the same
  outcome and file system after the path, assertion, open, loop and write.
\<close>

theorem end_date_not_used:
  "final_path year (p\<lparr>end_date := a\<rparr>) = final_path year (p\<lparr>end_date := b\<rparr>) \<and>
   normalize year (p\<lparr>end_date := a\<rparr>) = normalize year (p\<lparr>end_date := b\<rparr>) \<and>
   persist year can_open fs (p\<lparr>end_date := a\<rparr>) = persist year can_open fs (p\<lparr>end_date := b\<rparr>)"
proof -
  have path: "final_path year (p\<lparr>end_date := e\<rparr>) = final_path year p" for e
    by (simp add: final_path_def save_file_name_def)
  have norm: "normalize year (p\<lparr>end_date := e\<rparr>) = normalize year p" for e
    by (simp add: normalize_eq)
  have "persist year can_open fs (p\<lparr>end_date := e\<rparr>) = persist year can_open fs p" for e
    by (simp add: persist_def path norm split: sum.splits)
  then show ?thesis by (simp add: path norm)
qed

theorem end_date_not_used_witness:
  "final_path 2025 (example_menu student_cafeteria ''03-08'') =
     final_path 2025 (example_menu student_cafeteria ''12-31'') \<and>
   persist 2025 (\<lambda>p. True) Map.empty (example_menu student_cafeteria ''03-08'') =
     persist 2025 (\<lambda>p. True) Map.empty (example_menu student_cafeteria ''12-31'')"
  using end_date_not_used [where year = 2025 and p = "example_menu student_cafeteria []"
      and a = "''03-08''" and b = "''12-31''" and can_open = "\<lambda>p. True" and fs = Map.empty]
  by (simp add: example_menu_def)

subsection \<open>Validation and the calorie field\<close>

lemma those_map_None: "x \<in> set xs \<Longrightarrow> f x = None \<Longrightarrow> those (map f xs) = None"
  by (induction xs) (auto split: option.splits)

lemma validate_DailyMenu_needs_calorie:
  assumes "obj_get kvs ''calorie'' = None \<or> obj_get kvs ''calorie'' = Some JNull"
  shows "validate_DailyMenu lax (JObject kvs) = None"
proof -
  from assms have "required kvs ''calorie'' (validate_int lax) = None"
    by (auto simp: required_def)
  then show ?thesis
    by (simp add: Option.bind_eq_None_conv)
qed

lemma validate_WeeklyMenu_needs_calorie:
  assumes "obj_get obj ''items'' = Some (JArray xs)"
    and "JObject kvs \<in> set xs"
    and "obj_get kvs ''calorie'' = None \<or> obj_get kvs ''calorie'' = Some JNull"
  shows "validate_WeeklyMenu lax (JObject obj) = None"
proof -
  have "validate_items lax (JArray xs) = None"
    using those_map_None [of "JObject kvs" xs "validate_DailyMenu lax"] assms(2)
      validate_DailyMenu_needs_calorie [OF assms(3), of lax] by simp
  with assms(1) have "required obj ''items'' (validate_items lax) = None"
    by (simp add: required_def)
  then show ?thesis by simp
qed

lemma dumped_calorie_is_int:
  assumes "getitem (model_dump p) ''items'' = Inr (JArray ds)" and "v \<in> set ds"
  shows "\<exists>d c. v = JObject d \<and> getitem d ''calorie'' = Inr (JInt c) \<and> normalize_calorie d = Inr d"
proof -
  from assms obtain m where "v = dump_DailyMenu m"
    by (auto simp: model_dump_def getitem_def)
  then show ?thesis
    by (simp add: dump_DailyMenu_def getitem_def normalize_calorie_def)
qed

text \<open>
  C9. \<^verbatim>\<open>calorie: int\<close> has no default and is not optional: a reply in which some item of
  \<^verbatim>\<open>items\<close> has no \<^verbatim>\<open>calorie\<close> key, or has \<^verbatim>\<open>null\<close> there, fails validation, and the run
  ends with \<^verbatim>\<open>ValidationError\<close> and an unchanged file system, before the path is computed.
  For every reply that passes validation, each dict of the dumped model has an integer
  under \<^verbatim>\<open>calorie\<close>, so the test \<^verbatim>\<open>daily_menu["calorie"] is None\<close> is false and the first
  statement of the loop body leaves the dict as it is.
\<close>

theorem calorie_required_by_validation:
  "(parse reply_text = Some (JObject obj) \<and> obj_get obj ''items'' = Some (JArray xs) \<and>
    JObject kvs \<in> set xs \<and>
    (obj_get kvs ''calorie'' = None \<or> obj_get kvs ''calorie'' = Some JNull) \<longrightarrow>
      model_validate_json parse lax reply_text = Inl ValidationError) \<and>
   (environ w ''GEMINI_API_KEY'' = Some key \<and> fetch_image w = Inr img \<and>
    generate_content w key img = Some reply_text \<and>
    json_parse w reply_text = Some (JObject obj) \<and> obj_get obj ''items'' = Some (JArray xs) \<and>
    JObject kvs \<in> set xs \<and>
    (obj_get kvs ''calorie'' = None \<or> obj_get kvs ''calorie'' = Some JNull) \<longrightarrow>
      run w = (Some ValidationError, files w)) \<and>
   (model_validate_json parse lax reply_text = Inr p \<longrightarrow>
      (\<exists>ds. getitem (model_dump p) ''items'' = Inr (JArray ds) \<and>
            (\<forall>v \<in> set ds. \<exists>d. v = JObject d \<and> getitem d ''calorie'' \<noteq> Inr JNull \<and>
                                normalize_calorie d = Inr d)))"
proof -
  have rejected: "model_validate_json parse lax reply_text = Inl ValidationError"
    if "parse reply_text = Some (JObject obj)" "obj_get obj ''items'' = Some (JArray xs)"
      "JObject kvs \<in> set xs"
      "obj_get kvs ''calorie'' = None \<or> obj_get kvs ''calorie'' = Some JNull"
    for parse :: "string \<Rightarrow> json option" and lax
    using that validate_WeeklyMenu_needs_calorie [of obj xs kvs lax]
    by (simp add: model_validate_json_def)
  have aborted: "run w = (Some ValidationError, files w)"
    if "environ w ''GEMINI_API_KEY'' = Some key" "fetch_image w = Inr img"
      "generate_content w key img = Some reply_text"
      "json_parse w reply_text = Some (JObject obj)" "obj_get obj ''items'' = Some (JArray xs)"
      "JObject kvs \<in> set xs"
      "obj_get kvs ''calorie'' = None \<or> obj_get kvs ''calorie'' = Some JNull"
    using that rejected [of "json_parse w" "lax_int w"]
    by (simp add: run_def extract_menu_def environ_get_def)
  have dumped: "\<exists>ds. getitem (model_dump p) ''items'' = Inr (JArray ds) \<and>
      (\<forall>v \<in> set ds. \<exists>d. v = JObject d \<and> getitem d ''calorie'' \<noteq> Inr JNull \<and>
                          normalize_calorie d = Inr d)"
  proof -
    have items: "getitem (model_dump p) ''items'' = Inr (JArray (map dump_DailyMenu (items p)))"
      by (simp add: model_dump_def getitem_def)
    have "\<exists>d. v = JObject d \<and> getitem d ''calorie'' \<noteq> Inr JNull \<and> normalize_calorie d = Inr d"
      if "v \<in> set (map dump_DailyMenu (items p))" for v
      using dumped_calorie_is_int [OF items that] by auto
    with items show ?thesis by blast
  qed
  show ?thesis
    using rejected aborted dumped by blast
qed

theorem calorie_required_by_validation_witness:
  "run (example_world 200 (example_reply ''Mon'' JNull student_cafeteria) Map.empty) =
     (Some ValidationError, Map.empty) \<and>
   run (example_world 200 (JObject [(''items'', JArray [JObject [(''date'', JString ''03-04'')]])]) Map.empty) =
     (Some ValidationError, Map.empty) \<and>
   (\<exists>ds. getitem (model_dump
            \<lparr>items = [\<lparr>date = ''03-04'', day = ''Mon'', menus = [''Rice'', ''Soup''],
                       calorie = 650, time = ''lunch''\<rparr>],
             restaurant_name = student_cafeteria, start_date = ''03-04'', end_date = ''03-08''\<rparr>)
           ''items'' = Inr (JArray ds) \<and>
         list_all (\<lambda>v. \<exists>d. v = JObject d \<and> getitem d ''calorie'' \<noteq> Inr JNull \<and>
                             normalize_calorie d = Inr d) ds)"
proof -
  let ?null = "example_reply ''Mon'' JNull student_cafeteria"
  let ?absent = "JObject [(''items'', JArray [JObject [(''date'', JString ''03-04'')]])]"
  let ?good = "example_reply ''Mon'' (JInt 650) student_cafeteria"
  have fetch: "fetch_image (example_world 200 r Map.empty) = Inr ()" for r
    by (simp add: fetch_image_def example_world_def environ_get_def)
  have 1: "run (example_world 200 ?null Map.empty) = (Some ValidationError, Map.empty)"
    using calorie_required_by_validation [where w = "example_world 200 ?null Map.empty"
        and key = "''key''" and img = "()" and reply_text = "''reply''"
        and obj = "[(''items'', JArray
         [JObject [(''date'', JString ''03-04''), (''day'', JString ''Mon''),
                   (''menus'', JArray [JString ''Rice'', JString ''Soup'']), (''calorie'', JNull),
                   (''time'', JString ''lunch'')]]),
      (''restaurant_name'', JString student_cafeteria), (''start_date'', JString ''03-04''),
      (''end_date'', JString ''03-08'')]"
        and xs = "[JObject [(''date'', JString ''03-04''), (''day'', JString ''Mon''),
                   (''menus'', JArray [JString ''Rice'', JString ''Soup'']), (''calorie'', JNull),
                   (''time'', JString ''lunch'')]]"
        and kvs = "[(''date'', JString ''03-04''), (''day'', JString ''Mon''),
                   (''menus'', JArray [JString ''Rice'', JString ''Soup'']), (''calorie'', JNull),
                   (''time'', JString ''lunch'')]"]
      fetch [of ?null]
    by (simp add: example_world_def example_reply_def obj_get_def)
  have 2: "run (example_world 200 ?absent Map.empty) = (Some ValidationError, Map.empty)"
    using calorie_required_by_validation [where w = "example_world 200 ?absent Map.empty"
        and key = "''key''" and img = "()" and reply_text = "''reply''"
        and obj = "[(''items'', JArray [JObject [(''date'', JString ''03-04'')]])]"
        and xs = "[JObject [(''date'', JString ''03-04'')]]"
        and kvs = "[(''date'', JString ''03-04'')]"]
      fetch [of ?absent]
    by (simp add: example_world_def obj_get_def)
  have good: "model_validate_json (\<lambda>t. if t = ''reply'' then Some ?good else None) (\<lambda>v. None) ''reply'' =
      Inr \<lparr>items = [\<lparr>date = ''03-04'', day = ''Mon'', menus = [''Rice'', ''Soup''], calorie = 650,
          time = ''lunch''\<rparr>], restaurant_name = student_cafeteria, start_date = ''03-04'',
          end_date = ''03-08''\<rparr>"
    by (simp add: model_validate_json_def example_reply_def required_def obj_get_def)
  have 3: "\<exists>ds. getitem (model_dump
            \<lparr>items = [\<lparr>date = ''03-04'', day = ''Mon'', menus = [''Rice'', ''Soup''],
                       calorie = 650, time = ''lunch''\<rparr>],
             restaurant_name = student_cafeteria, start_date = ''03-04'', end_date = ''03-08''\<rparr>)
           ''items'' = Inr (JArray ds) \<and>
         list_all (\<lambda>v. \<exists>d. v = JObject d \<and> getitem d ''calorie'' \<noteq> Inr JNull \<and>
                             normalize_calorie d = Inr d) ds"
    using calorie_required_by_validation [where parse = "\<lambda>t. if t = ''reply'' then Some ?good else None"
        and lax = "\<lambda>v. None" and reply_text = "''reply''"
        and p = "\<lparr>items = [\<lparr>date = ''03-04'', day = ''Mon'', menus = [''Rice'', ''Soup''],
                       calorie = 650, time = ''lunch''\<rparr>],
             restaurant_name = student_cafeteria, start_date = ''03-04'', end_date = ''03-08''\<rparr>",
        THEN conjunct2, THEN conjunct2, THEN mp, OF good]
    by (simp add: list_all_iff)
  show ?thesis
    using 1 2 3 by blast
qed

subsection \<open>The target path and the collision guard\<close>

lemma persist_after_open:
  assumes "fs (final_path year p) = None" and "can_open (final_path year p)"
  shows "persist year can_open fs p =
     (case normalize year p of
        Inl e \<Rightarrow> (Some e, fs(final_path year p \<mapsto> []))
      | Inr out \<Rightarrow> (None, fs(final_path year p \<mapsto> json_dumps (JArray out))))"
  using assms by (simp add: persist_def)

lemma save_file_name_absolute:
  "(take 1 (save_file_name year p) = ''/'') = (take 1 (restaurant_name p) = ''/'')"
  by (cases "restaurant_name p") (simp_all add: save_file_name_def)

lemma final_path_example:
  "final_path 2025 (example_menu student_cafeteria ed) =
     PosixPath [] [''menus'', student_cafeteria @ ''_2025-03-04.json'']"
  by (simp add: final_path_def save_file_name_def base_path_def posix_join_def parse_path_def
      splitroot_def example_menu_def student_cafeteria_def str_int_def str_nat.simps digit_char_def)

lemma extract_menu_example:
  "extract_menu (example_world status (example_reply ''Mon'' (JInt 650) rn) fs) =
     Inr \<lparr>items = [\<lparr>date = ''03-04'', day = ''Mon'', menus = [''Rice'', ''Soup''], calorie = 650,
                      time = ''lunch''\<rparr>],
          restaurant_name = rn, start_date = ''03-04'', end_date = ''03-08''\<rparr>"
  by (simp add: extract_menu_def example_world_def environ_get_def fetch_image_def
      model_validate_json_def example_reply_def required_def obj_get_def)

text \<open>
  Lines 64 to 68, for every input. The target path is the join of the base path \<^verbatim>\<open>menus\<close>
  with the file name \<^verbatim>\<open>{restaurantName}_{currentYear}-{startDate}.json\<close>, where the start
  date is the reply's own \<^verbatim>\<open>MM-DD\<close> text. Whenever the restaurant name does not begin with
  a slash this is \<^verbatim>\<open>menus/{restaurantName}_{currentYear}-{startDate}.json\<close>; when it does,
  the join drops the base path. For every file system in which something exists at the
  computed path, the script stops with \<^verbatim>\<open>AssertionError\<close> and the file system is what it
  was, the bytes of the existing file included.
\<close>

theorem target_path_and_collision:
  "final_path year p =
     parse_path (posix_join ''menus''
       (restaurant_name p @ ''_'' @ str_int year @ ''-'' @ start_date p @ ''.json'')) \<and>
   (take 1 (restaurant_name p) \<noteq> ''/'' \<longrightarrow> final_path year p = spec_target_path year p) \<and>
   (take 1 (restaurant_name p) = ''/'' \<longrightarrow>
      final_path year p =
        parse_path (restaurant_name p @ ''_'' @ str_int year @ ''-'' @ start_date p @ ''.json'')) \<and>
   (fs (final_path year p) = Some bytes \<longrightarrow>
      persist year can_open fs p = (Some AssertionError, fs)) \<and>
   (extract_menu w = Inr p \<and> files w (final_path (year_now w) p) = Some bytes \<longrightarrow>
      run w = (Some AssertionError, files w) \<and>
      snd (run w) (final_path (year_now w) p) = Some bytes)"
proof -
  have rel: "final_path year p = spec_target_path year p" if "take 1 (restaurant_name p) \<noteq> ''/''"
    using that save_file_name_absolute [of year p]
    by (simp add: final_path_def spec_target_path_def posix_join_def base_path_def save_file_name_def)
  have abs: "final_path year p =
      parse_path (restaurant_name p @ ''_'' @ str_int year @ ''-'' @ start_date p @ ''.json'')"
    if "take 1 (restaurant_name p) = ''/''"
    using that save_file_name_absolute [of year p]
    by (simp add: final_path_def posix_join_def base_path_def save_file_name_def)
  have collide: "persist year can_open fs p = (Some AssertionError, fs)"
    if "fs (final_path year p) = Some bytes" for year can_open fs
    using that by (simp add: persist_def)
  have "run w = (Some AssertionError, files w)"
    if "extract_menu w = Inr p" "files w (final_path (year_now w) p) = Some bytes"
    using that collide by (simp add: run_def)
  then show ?thesis
    using rel abs collide by (simp add: final_path_def save_file_name_def base_path_def)
qed

theorem target_path_and_collision_witness:
  "final_path 2025 (example_menu student_cafeteria ''03-08'') =
     PosixPath [] [''menus'', student_cafeteria @ ''_2025-03-04.json''] \<and>
   final_path 2025 (example_menu student_cafeteria ''03-08'') =
     spec_target_path 2025 (example_menu student_cafeteria ''03-08'') \<and>
   final_path 2025 (example_menu ''/x'' ''03-08'') = PosixPath ''/'' [''x_2025-03-04.json''] \<and>
   persist 2025 (\<lambda>p. True)
       [PosixPath [] [''menus'', student_cafeteria @ ''_2025-03-04.json''] \<mapsto> ''old'']
       (example_menu student_cafeteria ''03-08'') =
     (Some AssertionError,
      [PosixPath [] [''menus'', student_cafeteria @ ''_2025-03-04.json''] \<mapsto> ''old'']) \<and>
   snd (run (example_world 200 (example_reply ''Mon'' (JInt 650) student_cafeteria)
          [PosixPath [] [''menus'', student_cafeteria @ ''_2025-03-04.json''] \<mapsto> ''old'']))
     (PosixPath [] [''menus'', student_cafeteria @ ''_2025-03-04.json'']) = Some ''old''"
proof -
  let ?target = "PosixPath [] [''menus'', student_cafeteria @ ''_2025-03-04.json'']"
  let ?p = "example_menu student_cafeteria ''03-08''"
  let ?w = "example_world 200 (example_reply ''Mon'' (JInt 650) student_cafeteria) [?target \<mapsto> ''old'']"
  let ?q = "\<lparr>items = [\<lparr>date = ''03-04'', day = ''Mon'', menus = [''Rice'', ''Soup''], calorie = 650,
                      time = ''lunch''\<rparr>],
          restaurant_name = student_cafeteria, start_date = ''03-04'', end_date = ''03-08''\<rparr>"
  have rel: "take 1 (restaurant_name ?p) \<noteq> ''/''"
    by (simp add: example_menu_def student_cafeteria_def)
  have abs: "take 1 (restaurant_name (example_menu ''/x'' ''03-08'')) = ''/''"
    by (simp add: example_menu_def)
  have fq: "final_path 2025 ?q = ?target"
    by (simp add: final_path_def save_file_name_def base_path_def posix_join_def parse_path_def
      splitroot_def student_cafeteria_def str_int_def str_nat.simps digit_char_def)
  have yw: "year_now ?w = 2025" "files ?w = [?target \<mapsto> ''old'']"
    by (simp_all add: example_world_def)
  have 1: "final_path 2025 ?p = spec_target_path 2025 ?p"
    using target_path_and_collision [where year = 2025 and p = ?p,
        THEN conjunct2, THEN conjunct1] rel by blast
  have 2: "final_path 2025 (example_menu ''/x'' ''03-08'') = PosixPath ''/'' [''x_2025-03-04.json'']"
    using target_path_and_collision [where year = 2025 and p = "example_menu ''/x'' ''03-08''",
        THEN conjunct2, THEN conjunct2, THEN conjunct1, THEN mp, OF abs]
    by (simp add: example_menu_def parse_path_def splitroot_def str_int_def str_nat.simps digit_char_def)
  have 3: "persist 2025 (\<lambda>p. True) [?target \<mapsto> ''old''] ?p = (Some AssertionError, [?target \<mapsto> ''old''])"
    using target_path_and_collision [where year = 2025 and p = ?p and fs = "[?target \<mapsto> ''old'']"
        and bytes = "''old''" and can_open = "\<lambda>p. True",
        THEN conjunct2, THEN conjunct2, THEN conjunct2, THEN conjunct1]
    by (simp add: final_path_example)
  have 4: "snd (run ?w) ?target = Some ''old''"
    using target_path_and_collision [where w = ?w and p = ?q and bytes = "''old''",
        THEN conjunct2, THEN conjunct2, THEN conjunct2, THEN conjunct2]
      extract_menu_example [of 200 student_cafeteria "[?target \<mapsto> ''old'']"] fq yw
    by simp
  show ?thesis
    using 1 2 3 4 final_path_example [of "''03-08''"] by simp
qed

text \<open>
  A restaurant name that begins with a slash: the schema takes any string as
  \<^verbatim>\<open>restaurant_name\<close>, and with the name \<^verbatim>\<open>/x\<close> the run succeeds and writes
  \<^verbatim>\<open>/x_2025-03-04.json\<close>, while nothing appears under \<^verbatim>\<open>menus\<close>.
\<close>

lemma absolute_name_run:
  "fst (run (example_world 200 (example_reply ''Mon'' (JInt 650) ''/x'') Map.empty)) = None \<and>
   snd (run (example_world 200 (example_reply ''Mon'' (JInt 650) ''/x'') Map.empty))
     (PosixPath ''/'' [''x_2025-03-04.json'']) \<noteq> None \<and>
   snd (run (example_world 200 (example_reply ''Mon'' (JInt 650) ''/x'') Map.empty))
     (PosixPath [] [''menus'', ''x_2025-03-04.json'']) = None"
proof -
  let ?w = "example_world 200 (example_reply ''Mon'' (JInt 650) ''/x'') Map.empty"
  let ?p = "\<lparr>items = [\<lparr>date = ''03-04'', day = ''Mon'', menus = [''Rice'', ''Soup''], calorie = 650,
                      time = ''lunch''\<rparr>],
          restaurant_name = ''/x'', start_date = ''03-04'', end_date = ''03-08''\<rparr>"
  have target: "final_path 2025 ?p = PosixPath ''/'' [''x_2025-03-04.json'']"
    by (simp add: final_path_def save_file_name_def base_path_def posix_join_def parse_path_def
      splitroot_def str_int_def str_nat.simps digit_char_def)
  have world: "year_now ?w = 2025" "files ?w = Map.empty" "openable ?w = (\<lambda>p. True)"
    by (simp_all add: example_world_def)
  have valid: "\<exists>out. normalize 2025 ?p = Inr out"
    by (simp add: normalize_eq normalize_item_dump weekday_to_index_def time_to_index_def)
  then obtain out where out: "normalize 2025 ?p = Inr out" by blast
  have "run ?w = (None, [PosixPath ''/'' [''x_2025-03-04.json''] \<mapsto> json_dumps (JArray out)])"
    using persist_after_open [of Map.empty 2025 ?p "\<lambda>p. True"]
    by (simp add: run_def extract_menu_example world target out)
  then show ?thesis by simp
qed

text \<open>
  C2 says that the target path is \<^verbatim>\<open>menus/{restaurantName}_{currentYear}-{startDate}.json\<close>
  and that an existing file there is a fatal collision that leaves the file as it is.
  The collision half holds for every input (above). The path half does not: line 66
  joins the file name onto \<^verbatim>\<open>base_path\<close> unchecked, and for the restaurant name \<^verbatim>\<open>/x\<close> the
  computed path is \<^verbatim>\<open>/x_2025-03-04.json\<close>, which is not the path
  \<^verbatim>\<open>menus//x_2025-03-04.json\<close> that the claim gives.
\<close>

theorem absolute_name_leaves_menus:
  "final_path 2025 (example_menu ''/x'' ''03-08'') \<noteq> spec_target_path 2025 (example_menu ''/x'' ''03-08'')"
  by (simp add: final_path_def spec_target_path_def save_file_name_def base_path_def posix_join_def
      parse_path_def splitroot_def example_menu_def str_int_def str_nat.simps digit_char_def)

subsection \<open>The image download\<close>

lemma fetch_image_example: "fetch_image (example_world status reply fs) = Inr ()"
  by (simp add: fetch_image_def example_world_def environ_get_def)

text \<open>
  C8, as stated, fails: the script never looks at the HTTP status. A server that answers
  404 with a body that decodes as an image gives the script an image, and the run goes on
  to the model call and to validation.
\<close>

theorem not_found_image_is_fetched:
  "requests_get (example_world 404 (example_reply ''Mon'' (JInt 650) student_cafeteria) Map.empty)
     ''http://host/menu.png'' = Some \<lparr>status_code = 404, content = ''PNG''\<rparr> \<and>
   fetch_image (example_world 404 (example_reply ''Mon'' (JInt 650) student_cafeteria) Map.empty) =
     Inr () \<and>
   extract_menu (example_world 404 (example_reply ''Mon'' (JInt 650) student_cafeteria) Map.empty) =
     Inr \<lparr>items = [\<lparr>date = ''03-04'', day = ''Mon'', menus = [''Rice'', ''Soup''], calorie = 650,
                      time = ''lunch''\<rparr>],
          restaurant_name = student_cafeteria, start_date = ''03-04'', end_date = ''03-08''\<rparr>"
  by (simp add: fetch_image_example extract_menu_example) (simp add: example_world_def)

text \<open>
  C8, amended. The download gives an image exactly when \<^verbatim>\<open>requests.get\<close> returns a
  response and the body of that response decodes as an image. It fails with the
  transport's exception when no response arrives and with \<^verbatim>\<open>UnidentifiedImageError\<close> when
  the body does not decode, whatever the status; each failure ends the run with the file
  system unchanged. The status of the response has no influence on the outcome.
\<close>

theorem fetch_image_outcomes:
  "(fetch_image w = Inr img) =
     (\<exists>url r. environ w ''IMAGE_URL'' = Some url \<and> requests_get w url = Some r \<and>
             image_open w (content r) = Some img) \<and>
   (environ w ''IMAGE_URL'' = Some url \<and> requests_get w url = None \<longrightarrow>
      fetch_image w = Inl RequestException) \<and>
   (environ w ''IMAGE_URL'' = Some url \<and> requests_get w url = Some r \<and>
    image_open w (content r) = None \<longrightarrow>
      fetch_image w = Inl UnidentifiedImageError) \<and>
   (fetch_image w = Inl e \<longrightarrow> fst (run w) \<noteq> None \<and> snd (run w) = files w) \<and>
   fetch_image (w\<lparr>requests_get := \<lambda>u. map_option (\<lambda>r. r\<lparr>status_code := s\<rparr>) (requests_get w u)\<rparr>) =
     fetch_image w"
proof -
  have ok: "(fetch_image w = Inr img) =
     (\<exists>url r. environ w ''IMAGE_URL'' = Some url \<and> requests_get w url = Some r \<and>
             image_open w (content r) = Some img)"
    by (auto simp: fetch_image_def environ_get_def split: option.splits)
  have no_response: "fetch_image w = Inl RequestException"
    if "environ w ''IMAGE_URL'' = Some url" "requests_get w url = None"
    using that by (simp add: fetch_image_def environ_get_def)
  have no_image: "fetch_image w = Inl UnidentifiedImageError"
    if "environ w ''IMAGE_URL'' = Some url" "requests_get w url = Some r"
      "image_open w (content r) = None"
    using that by (simp add: fetch_image_def environ_get_def)
  have aborts: "fst (run w) \<noteq> None \<and> snd (run w) = files w" if "fetch_image w = Inl e"
    using that by (simp add: run_def extract_menu_def split: sum.splits)
  have status: "fetch_image (w\<lparr>requests_get := \<lambda>u. map_option (\<lambda>r. r\<lparr>status_code := s\<rparr>) (requests_get w u)\<rparr>) =
     fetch_image w"
    by (simp add: fetch_image_def environ_get_def split: option.splits)
  show ?thesis
    using ok no_response no_image aborts status by blast
qed

theorem fetch_image_outcomes_witness:
  "fetch_image ((example_world 500 JNull Map.empty)\<lparr>image_open := \<lambda>bytes. None\<rparr>) =
     Inl UnidentifiedImageError \<and>
   fst (run ((example_world 500 JNull Map.empty)\<lparr>image_open := \<lambda>bytes. None\<rparr>)) \<noteq> None \<and>
   fetch_image ((example_world 200 JNull Map.empty)\<lparr>requests_get := \<lambda>url. None\<rparr>) =
     Inl RequestException \<and>
   fetch_image (example_world 404 JNull Map.empty) = fetch_image (example_world 200 JNull Map.empty)"
proof -
  let ?w = "(example_world 500 JNull Map.empty)\<lparr>image_open := \<lambda>bytes. None\<rparr>"
  let ?v = "(example_world 200 JNull Map.empty)\<lparr>requests_get := \<lambda>url. None\<rparr>"
  have 1: "fetch_image ?w = Inl UnidentifiedImageError"
    using fetch_image_outcomes [where w = ?w and url = "''http://host/menu.png''"
        and r = "\<lparr>status_code = 500, content = ''PNG''\<rparr>",
        THEN conjunct2, THEN conjunct2, THEN conjunct1]
    by (simp add: example_world_def)
  have 2: "fst (run ?w) \<noteq> None"
    using fetch_image_outcomes [where w = ?w and e = UnidentifiedImageError,
        THEN conjunct2, THEN conjunct2, THEN conjunct2, THEN conjunct1] 1
    by simp
  have 3: "fetch_image ?v = Inl RequestException"
    using fetch_image_outcomes [where w = ?v and url = "''http://host/menu.png''",
        THEN conjunct2, THEN conjunct1]
    by (simp add: example_world_def)
  have 4: "fetch_image (example_world 404 JNull Map.empty) = fetch_image (example_world 200 JNull Map.empty)"
    using fetch_image_outcomes [where w = "example_world 200 JNull Map.empty" and s = 404,
        THEN conjunct2, THEN conjunct2, THEN conjunct2, THEN conjunct2]
    by (simp add: example_world_def)
  show ?thesis using 1 2 3 4 by simp
qed

subsection \<open>What is left behind when the loop raises\<close>

text \<open>
  C1 says that a run either writes the complete file or leaves nothing at the target
  path. The file is opened for writing on line 74, before the loop of lines 78 to 85: a
  reply whose weekday symbol is \<^verbatim>\<open>Monday\<close> passes validation (\<^verbatim>\<open>day\<close> is any \<^verbatim>\<open>str\<close>), the
  lookup on line 83 raises \<^verbatim>\<open>KeyError\<close>, and the target path, where nothing existed
  before, now holds an empty file.
\<close>

theorem lookup_failure_leaves_empty_file:
  "files (example_world 200 (example_reply ''Monday'' (JInt 650) student_cafeteria) Map.empty)
     (PosixPath [] [''menus'', student_cafeteria @ ''_2025-03-04.json'']) = None \<and>
   fst (run (example_world 200 (example_reply ''Monday'' (JInt 650) student_cafeteria) Map.empty)) =
     Some (KeyError (JString ''Monday'')) \<and>
   snd (run (example_world 200 (example_reply ''Monday'' (JInt 650) student_cafeteria) Map.empty))
     (PosixPath [] [''menus'', student_cafeteria @ ''_2025-03-04.json'']) = Some []"
proof -
  let ?w = "example_world 200 (example_reply ''Monday'' (JInt 650) student_cafeteria) Map.empty"
  let ?p = "\<lparr>items = [\<lparr>date = ''03-04'', day = ''Monday'', menus = [''Rice'', ''Soup''],
                       calorie = 650, time = ''lunch''\<rparr>],
            restaurant_name = student_cafeteria, start_date = ''03-04'', end_date = ''03-08''\<rparr>"
  let ?target = "PosixPath [] [''menus'', student_cafeteria @ ''_2025-03-04.json'']"
  have validated: "extract_menu ?w = Inr ?p"
    by (simp add: extract_menu_def example_world_def environ_get_def fetch_image_def
      model_validate_json_def example_reply_def required_def obj_get_def)
  have target: "final_path 2025 ?p = ?target"
    by (simp add: final_path_def save_file_name_def base_path_def posix_join_def parse_path_def
      splitroot_def student_cafeteria_def str_int_def str_nat.simps digit_char_def)
  have raised: "normalize 2025 ?p = Inl (KeyError (JString ''Monday''))"
    by (simp add: normalize_eq normalize_item_dump weekday_to_index_def)
  have world: "year_now ?w = 2025" "files ?w = Map.empty" "openable ?w = (\<lambda>p. True)"
    by (simp_all add: example_world_def)
  have "run ?w = (Some (KeyError (JString ''Monday'')), [?target \<mapsto> []])"
    using persist_after_open [of Map.empty 2025 ?p "\<lambda>p. True"]
    by (simp add: run_def validated world target raised)
  then show ?thesis by (simp add: world)
qed

subsection \<open>The calorie value\<close>

text \<open>
  The loop body on its own: an integer under \<^verbatim>\<open>calorie\<close> is kept as it is, and \<^verbatim>\<open>None\<close>
  becomes 0.
\<close>

lemma calorie_int_unchanged:
  assumes "map_of d ''calorie'' = Some (JInt c)" and "normalize_daily_menu year rn d = Inr d'"
  shows "map_of d' ''calorie'' = Some (JInt c)"
  using assms
  by (auto simp: normalize_daily_menu_def normalize_calorie_def normalize_date_def
      normalize_index_def getitem_def setitem_def update_conv'
      split: sum.splits option.splits if_splits)

lemma calorie_None_becomes_0:
  assumes "map_of d ''calorie'' = Some JNull" and "normalize_daily_menu year rn d = Inr d'"
  shows "map_of d' ''calorie'' = Some (JInt 0)"
  using assms
  by (auto simp: normalize_daily_menu_def normalize_calorie_def normalize_date_def
      normalize_index_def getitem_def setitem_def update_conv'
      split: sum.splits option.splits if_splits)

text \<open>
  C4 says that a \<^verbatim>\<open>null\<close> calorie in the model's reply is persisted as 0. The loop body does
  map \<^verbatim>\<open>None\<close> to 0, but a reply with \<^verbatim>\<open>"calorie": null\<close> never reaches it: \<^verbatim>\<open>calorie\<close> is
  declared \<^verbatim>\<open>int\<close>, validation raises, and nothing is written.
\<close>

theorem null_calorie_is_rejected:
  "run (example_world 200 (example_reply ''Mon'' JNull student_cafeteria) Map.empty) =
     (Some ValidationError, Map.empty) \<and>
   normalize_daily_menu 2025 student_cafeteria
     [(''date'', JString ''03-04''), (''day'', JString ''Mon''),
      (''menus'', JArray [JString ''Rice'', JString ''Soup'']), (''calorie'', JNull),
      (''time'', JString ''lunch'')] =
   Inr [(''date'', JString ''2025-03-04''), (''day'', JInt 1),
        (''menus'', JArray [JString ''Rice'', JString ''Soup'']), (''calorie'', JInt 0),
        (''time'', JInt 2), (''restaurant_name'', JString student_cafeteria)]"
proof -
  have "extract_menu (example_world 200 (example_reply ''Mon'' JNull student_cafeteria) Map.empty) =
      Inl ValidationError"
    by (simp add: extract_menu_def example_world_def environ_get_def fetch_image_def
      model_validate_json_def example_reply_def required_def obj_get_def)
  then have "run (example_world 200 (example_reply ''Mon'' JNull student_cafeteria) Map.empty) =
     (Some ValidationError, Map.empty)"
    by (simp add: run_def) (simp add: example_world_def)
  moreover have "normalize_daily_menu 2025 student_cafeteria
     [(''date'', JString ''03-04''), (''day'', JString ''Mon''),
      (''menus'', JArray [JString ''Rice'', JString ''Soup'']), (''calorie'', JNull),
      (''time'', JString ''lunch'')] =
   Inr [(''date'', JString ''2025-03-04''), (''day'', JInt 1),
        (''menus'', JArray [JString ''Rice'', JString ''Soup'']), (''calorie'', JInt 0),
        (''time'', JInt 2), (''restaurant_name'', JString student_cafeteria)]"
    by (simp add: normalize_daily_menu_def normalize_calorie_def normalize_date_def
        normalize_index_def getitem_def setitem_def weekday_to_index_def time_to_index_def
        str_int_def str_nat.simps digit_char_def)
  ultimately show ?thesis by simp
qed

end
